theory Spec2Isabelle
  imports Complex_Main
begin

section \<open>Shared data: calendar dates and timestamps\<close>

text \<open>
  A \<^verbatim>\<open>datetime.date\<close> is a triple year, month, day; Python compares two dates
  lexicographically on that triple. A pandas \<^verbatim>\<open>Timestamp\<close> is a date with a time of
  day, and \<^verbatim>\<open>.dt.date\<close> projects the date out of it.
\<close>

datatype date = Date (year: nat) (month: nat) (day: nat)

definition date_le :: "date \<Rightarrow> date \<Rightarrow> bool" where
  "date_le a b =
     (year a < year b \<or>
      (year a = year b \<and> (month a < month b \<or> (month a = month b \<and> day a \<le> day b))))"

record timestamp =
  ts_date :: date
  ts_hour :: nat
  ts_minute :: nat
  ts_second :: nat

section \<open>The synthetic generator (app\_v1.py, simular\_datos\_pv)\<close>

text \<open>
  One row of the long-format table returned by \<^verbatim>\<open>simular_datos_pv\<close>: the columns
  \<^verbatim>\<open>Timestamp\<close>, \<^verbatim>\<open>Irradiancia\<close>, \<^verbatim>\<open>Potencia\<close> and \<^verbatim>\<open>Dia\<close>. Floating-point numbers
  are modelled as reals.
\<close>

record fila_pv =
  Timestamp :: timestamp
  Irradiancia :: real
  Potencia :: real
  Dia :: string

text \<open>
  The three day labels of lines 30, 33 and 36. The second letter of each label is an
  accented i in the source, code point 0xED of the Python string.
\<close>

definition etiqueta_dia1 :: string where
  "etiqueta_dia1 = ''D'' @ [CHR 0xED] @ ''a 1 (Soleado)''"

definition etiqueta_dia2 :: string where
  "etiqueta_dia2 = ''D'' @ [CHR 0xED] @ ''a 2 (Nublado)''"

definition etiqueta_dia3 :: string where
  "etiqueta_dia3 = ''D'' @ [CHR 0xED] @ ''a 3 (Parcial)''"

text \<open>
  \<^verbatim>\<open>pd.date_range(start='2025-07-01', periods=72, freq='h')\<close>: 72 hourly instants
  starting at midnight of 1 July 2025, so instant \<open>i\<close> falls on day \<open>1 + i div 24\<close> of
  July at hour \<open>i mod 24\<close>.
\<close>

definition timestamps :: "timestamp list" where
  "timestamps =
     map (\<lambda>i. \<lparr>ts_date = Date 2025 7 (1 + i div 24), ts_hour = i mod 24,
                ts_minute = 0, ts_second = 0\<rparr>) [0..<72]"

text \<open>\<^verbatim>\<open>np.arange(0, 72)\<close>.\<close>

definition horas_dia :: "nat list" where
  "horas_dia = [0..<72]"

text \<open>\<^verbatim>\<open>np.sin(np.pi * (horas_dia % 24) / 24) ** 2\<close>.\<close>

definition ciclo_solar_base :: "real list" where
  "ciclo_solar_base = map (\<lambda>h. (sin (pi * real (h mod 24) / 24))\<^sup>2) horas_dia"

text \<open>
  \<^verbatim>\<open>np.random.normal(0, s, 72)\<close> returns an array of 72 drawn values. A draw is
  modelled by an arbitrary function \<open>ruido\<close> giving the value at each index; the array
  is \<open>map ruido [0..<72]\<close>. The theorems below hold for every such function, that is,
  for every run.
\<close>

definition np_random_normal :: "(nat \<Rightarrow> real) \<Rightarrow> real list" where
  "np_random_normal ruido = map ruido [0..<72]"

text \<open>\<^verbatim>\<open>np.maximum(0, a)\<close>, element by element.\<close>

definition np_maximum0 :: "real list \<Rightarrow> real list" where
  "np_maximum0 a = map (max 0) a"

text \<open>Element-wise sum of two arrays and product of an array with a scalar.\<close>

definition np_add :: "real list \<Rightarrow> real list \<Rightarrow> real list" where
  "np_add a b = map2 (+) a b"

definition np_scale :: "real list \<Rightarrow> real \<Rightarrow> real list" where
  "np_scale a c = map (\<lambda>x. x * c) a"

text \<open>
  Line 13: \<^verbatim>\<open>np.maximum(0, ciclo_solar_base * 1000 + np.random.normal(0, 5, 72))\<close>.
\<close>

definition irradiancia_base :: "(nat \<Rightarrow> real) \<Rightarrow> real list" where
  "irradiancia_base ruido1 =
     np_maximum0 (np_add (np_scale ciclo_solar_base 1000) (np_random_normal ruido1))"

text \<open>
  Lines 14 to 21. \<^verbatim>\<open>irradiancia_dia1\<close> and \<^verbatim>\<open>irradiancia_dia3\<close> are both the array
  \<^verbatim>\<open>irradiancia_base\<close> itself; the products with 0.15 allocate new arrays, so the two
  in-place updates of \<^verbatim>\<open>potencia_dia3\<close> at positions \<^verbatim>\<open>24+11\<close> and \<^verbatim>\<open>24+14\<close> change
  neither an irradiance array nor \<^verbatim>\<open>potencia_dia1\<close>. Both positions are below 72, so
  neither update raises.
\<close>

definition irradiancia_dia1 :: "(nat \<Rightarrow> real) \<Rightarrow> real list" where
  "irradiancia_dia1 ruido1 = irradiancia_base ruido1"

definition potencia_dia1 :: "(nat \<Rightarrow> real) \<Rightarrow> real list" where
  "potencia_dia1 ruido1 = np_scale (irradiancia_dia1 ruido1) 0.15"

definition irradiancia_dia2 :: "(nat \<Rightarrow> real) \<Rightarrow> (nat \<Rightarrow> real) \<Rightarrow> real list" where
  "irradiancia_dia2 ruido1 ruido2 =
     np_maximum0 (np_add (np_scale (irradiancia_base ruido1) 0.4) (np_random_normal ruido2))"

definition potencia_dia2 :: "(nat \<Rightarrow> real) \<Rightarrow> (nat \<Rightarrow> real) \<Rightarrow> real list" where
  "potencia_dia2 ruido1 ruido2 = np_scale (irradiancia_dia2 ruido1 ruido2) 0.15"

definition irradiancia_dia3 :: "(nat \<Rightarrow> real) \<Rightarrow> real list" where
  "irradiancia_dia3 ruido1 = irradiancia_base ruido1"

definition potencia_dia3 :: "(nat \<Rightarrow> real) \<Rightarrow> real list" where
  "potencia_dia3 ruido1 =
     (let p0 = np_scale (irradiancia_dia3 ruido1) 0.15;
          p1 = p0[24 + 11 := p0 ! (24 + 11) * 0.3];
          p2 = p1[24 + 14 := p1 ! (24 + 14) * 0.4]
      in p2)"

text \<open>
  Lines 22 to 36: the wide frame indexed by \<^verbatim>\<open>timestamps\<close> is cut into one frame per
  day with the columns \<^verbatim>\<open>Timestamp\<close>, \<^verbatim>\<open>Irradiancia\<close>, \<^verbatim>\<open>Potencia\<close>, and the column
  \<^verbatim>\<open>Dia\<close> is set to the day's label on every row.
\<close>

definition df_dia :: "string \<Rightarrow> real list \<Rightarrow> real list \<Rightarrow> fila_pv list" where
  "df_dia etiqueta irr pot =
     map (\<lambda>(t, i, p). \<lparr>Timestamp = t, Irradiancia = i, Potencia = p, Dia = etiqueta\<rparr>)
         (zip timestamps (zip irr pot))"

definition df_d1 :: "(nat \<Rightarrow> real) \<Rightarrow> fila_pv list" where
  "df_d1 ruido1 = df_dia etiqueta_dia1 (irradiancia_dia1 ruido1) (potencia_dia1 ruido1)"

definition df_d2 :: "(nat \<Rightarrow> real) \<Rightarrow> (nat \<Rightarrow> real) \<Rightarrow> fila_pv list" where
  "df_d2 ruido1 ruido2 =
     df_dia etiqueta_dia2 (irradiancia_dia2 ruido1 ruido2) (potencia_dia2 ruido1 ruido2)"

definition df_d3 :: "(nat \<Rightarrow> real) \<Rightarrow> fila_pv list" where
  "df_d3 ruido1 = df_dia etiqueta_dia3 (irradiancia_dia3 ruido1) (potencia_dia3 ruido1)"

text \<open>Line 37: \<^verbatim>\<open>pd.concat([df_d1, df_d2, df_d3])\<close>.\<close>

definition simular_datos_pv :: "(nat \<Rightarrow> real) \<Rightarrow> (nat \<Rightarrow> real) \<Rightarrow> fila_pv list" where
  "simular_datos_pv ruido1 ruido2 = df_d1 ruido1 @ df_d2 ruido1 ruido2 @ df_d3 ruido1"

text \<open>The sub-table of the rows carrying a given day label.\<close>

definition filas_de :: "string \<Rightarrow> fila_pv list \<Rightarrow> fila_pv list" where
  "filas_de etiqueta df = filter (\<lambda>r. Dia r = etiqueta) df"

text \<open>A run whose noise draws are all zero, used to evaluate the generator.\<close>

definition sin_ruido :: "nat \<Rightarrow> real" where
  "sin_ruido i = 0"

section \<open>The metrics and filter pipeline (streamlit\_app.py)\<close>

subsection \<open>Loading and cleaning: cargar\_datos\<close>

text \<open>
  One row of the input table with the four columns the script reads. The type of the
  \<^verbatim>\<open>Timestamp\<close> column changes along \<^verbatim>\<open>cargar_datos\<close>: text as read by
  \<^verbatim>\<open>pd.read_csv\<close>, then a timestamp or \<^verbatim>\<open>NaT\<close> (\<open>None\<close>) after
  \<^verbatim>\<open>pd.to_datetime(..., errors="coerce")\<close>, then a timestamp after \<^verbatim>\<open>dropna\<close>.
  The numeric columns are modelled as reals.
\<close>

record 't lectura =
  Timestamp :: 't
  Nombre_Inversor :: string
  Potencia_AC_kW :: real
  Irradiancia_GHI_W_m2 :: real

text \<open>A row of the cleaned table: the columns above and the derived \<^verbatim>\<open>Fecha\<close>.\<close>

record fila = "timestamp lectura" +
  Fecha :: date

text \<open>
  Line 22. What text pandas accepts as a timestamp is not part of this repository, so
  the parser is a parameter: \<open>analiza col s\<close> is the value \<^verbatim>\<open>pd.to_datetime\<close> gives the
  cell \<open>s\<close> of the column \<open>col\<close>, \<open>None\<close> standing for \<^verbatim>\<open>NaT\<close>. Only the
  \<^verbatim>\<open>Timestamp\<close> column is assigned; the other columns of each row stay as read.
\<close>

definition to_datetime_coerce ::
  "(string list \<Rightarrow> string \<Rightarrow> timestamp option) \<Rightarrow> string lectura list
     \<Rightarrow> timestamp option lectura list" where
  "to_datetime_coerce analiza df =
     map (\<lambda>r. \<lparr>Timestamp = analiza (map Timestamp df) (Timestamp r),
                Nombre_Inversor = Nombre_Inversor r,
                Potencia_AC_kW = Potencia_AC_kW r,
                Irradiancia_GHI_W_m2 = Irradiancia_GHI_W_m2 r\<rparr>) df"

text \<open>
  Line 25, \<^verbatim>\<open>df.dropna(subset=["Timestamp"])\<close>: the rows whose \<^verbatim>\<open>Timestamp\<close> is
  \<^verbatim>\<open>NaT\<close> are removed, the others are kept as they are, in order.
\<close>

definition dropna_Timestamp :: "timestamp option lectura list \<Rightarrow> timestamp lectura list" where
  "dropna_Timestamp df =
     List.map_filter
       (\<lambda>r. case Timestamp r of
              None \<Rightarrow> None
            | Some t \<Rightarrow> Some \<lparr>Timestamp = t,
                              Nombre_Inversor = Nombre_Inversor r,
                              Potencia_AC_kW = Potencia_AC_kW r,
                              Irradiancia_GHI_W_m2 = Irradiancia_GHI_W_m2 r\<rparr>) df"

text \<open>Line 28, \<^verbatim>\<open>df["Fecha"] = df["Timestamp"].dt.date\<close>.\<close>

definition con_Fecha :: "timestamp lectura list \<Rightarrow> fila list" where
  "con_Fecha df =
     map (\<lambda>r. \<lparr>Timestamp = Timestamp r,
                Nombre_Inversor = Nombre_Inversor r,
                Potencia_AC_kW = Potencia_AC_kW r,
                Irradiancia_GHI_W_m2 = Irradiancia_GHI_W_m2 r,
                Fecha = ts_date (Timestamp r)\<rparr>) df"

text \<open>Lines 17 to 29, applied to the table \<^verbatim>\<open>pd.read_csv\<close> returned.\<close>

definition cargar_datos ::
  "(string list \<Rightarrow> string \<Rightarrow> timestamp option) \<Rightarrow> string lectura list \<Rightarrow> fila list" where
  "cargar_datos analiza df = con_Fecha (dropna_Timestamp (to_datetime_coerce analiza df))"

text \<open>
  The columns of a row other than \<^verbatim>\<open>Timestamp\<close>, and whether a cell of the input
  parses.
\<close>

definition otros_campos :: "('t, 'z) lectura_scheme \<Rightarrow> string \<times> real \<times> real" where
  "otros_campos r = (Nombre_Inversor r, Potencia_AC_kW r, Irradiancia_GHI_W_m2 r)"

definition timestamp_valido ::
  "(string list \<Rightarrow> string \<Rightarrow> timestamp option) \<Rightarrow> string lectura list
     \<Rightarrow> string lectura \<Rightarrow> bool" where
  "timestamp_valido analiza df r = (analiza (map Timestamp df) (Timestamp r) \<noteq> None)"

subsection \<open>Filtering: df\_filtrado\<close>

text \<open>
  Lines 71 to 75 build three boolean columns, combine them with \<^verbatim>\<open>&\<close> and index the
  frame with the result. \<^verbatim>\<open>isin\<close> tests membership in the list of selected
  inverters; the two comparisons are those of \<^verbatim>\<open>datetime.date\<close>.
\<close>

definition isin :: "string list \<Rightarrow> string list \<Rightarrow> bool list" where
  "isin col valores = map (\<lambda>x. x \<in> set valores) col"

definition fecha_ge :: "date list \<Rightarrow> date \<Rightarrow> bool list" where
  "fecha_ge col f = map (\<lambda>d. date_le f d) col"

definition fecha_le :: "date list \<Rightarrow> date \<Rightarrow> bool list" where
  "fecha_le col f = map (\<lambda>d. date_le d f) col"

definition mascara_y :: "bool list \<Rightarrow> bool list \<Rightarrow> bool list" where
  "mascara_y a b = map2 (\<and>) a b"

definition indexar :: "'a list \<Rightarrow> bool list \<Rightarrow> 'a list" where
  "indexar df mascara = map fst (filter snd (zip df mascara))"

definition df_filtrado :: "fila list \<Rightarrow> string list \<Rightarrow> date \<Rightarrow> date \<Rightarrow> fila list" where
  "df_filtrado df inversores_seleccionados fecha_inicio fecha_fin =
     indexar df
       (mascara_y
          (mascara_y (isin (map Nombre_Inversor df) inversores_seleccionados)
                     (fecha_ge (map Fecha df) fecha_inicio))
          (fecha_le (map Fecha df) fecha_fin))"

text \<open>
  The condition of the specification on one row: the inverter is selected and the
  calendar date of the timestamp lies between the two ends, both included.
\<close>

definition cumple_filtro :: "string list \<Rightarrow> date \<Rightarrow> date \<Rightarrow> fila \<Rightarrow> bool" where
  "cumple_filtro inversores_seleccionados fecha_inicio fecha_fin r =
     (Nombre_Inversor r \<in> set inversores_seleccionados \<and>
      date_le fecha_inicio (ts_date (Timestamp r)) \<and>
      date_le (ts_date (Timestamp r)) fecha_fin)"

subsection \<open>The script: halts and KPIs\<close>

text \<open>
  The ways a run ends without KPIs. \<open>Rango_invalido\<close> and \<open>Sin_datos\<close> are the two
  \<^verbatim>\<open>st.stop()\<close> of lines 67 and 79, after \<^verbatim>\<open>st.sidebar.error\<close> and \<^verbatim>\<open>st.warning\<close>.
  \<open>Max_de_vacio\<close> and \<open>Division_por_cero\<close> mark the arithmetic the specification
  wants never attempted: the maximum of an empty column (pandas gives \<^verbatim>\<open>NaN\<close>) and a
  division by zero (numpy gives \<^verbatim>\<open>inf\<close> or \<^verbatim>\<open>NaN\<close> with a warning).
\<close>

datatype fin = Rango_invalido | Sin_datos | Max_de_vacio | Division_por_cero

record kpis =
  energia_total_kwh :: real
  potencia_pico_kw :: real
  irradiancia_max :: real
  hsp :: real

definition serie_max :: "real list \<Rightarrow> fin + real" where
  "serie_max col = (case col of [] \<Rightarrow> Inl Max_de_vacio | x # xs \<Rightarrow> Inr (fold max xs x))"

definition dividir :: "real \<Rightarrow> nat \<Rightarrow> fin + real" where
  "dividir x n = (if n = 0 then Inl Division_por_cero else Inr (x / real n))"

text \<open>Lines 92 to 101, on the filtered table and the list of selected inverters.\<close>

definition calcular_kpis :: "fila list \<Rightarrow> string list \<Rightarrow> fin + kpis" where
  "calcular_kpis dff inversores_seleccionados =
     (let energia = sum_list (map Potencia_AC_kW dff) * 0.25 in
      case serie_max (map Potencia_AC_kW dff) of
        Inl e \<Rightarrow> Inl e
      | Inr pico \<Rightarrow>
          (case serie_max (map Irradiancia_GHI_W_m2 dff) of
             Inl e \<Rightarrow> Inl e
           | Inr irr \<Rightarrow>
               (let potencia_pico_sistema_kwp = 50 * length inversores_seleccionados in
                case dividir energia potencia_pico_sistema_kwp of
                  Inl e \<Rightarrow> Inl e
                | Inr h \<Rightarrow>
                    Inr \<lparr>energia_total_kwh = energia, potencia_pico_kw = pico,
                         irradiancia_max = irr, hsp = h\<rparr>)))"

text \<open>
  Lines 63 to 101. \<^verbatim>\<open>fechas_seleccionadas\<close> is the tuple \<^verbatim>\<open>st.date_input\<close> returns;
  unpacking it into two names raises \<^verbatim>\<open>ValueError\<close>, caught at line 65, unless it
  has exactly two components.
\<close>

definition dashboard :: "fila list \<Rightarrow> string list \<Rightarrow> date list \<Rightarrow> fin + kpis" where
  "dashboard df inversores_seleccionados fechas_seleccionadas =
     (case fechas_seleccionadas of
        [fecha_inicio, fecha_fin] \<Rightarrow>
          (let dff = df_filtrado df inversores_seleccionados fecha_inicio fecha_fin in
           if dff = [] then Inl Sin_datos
           else calcular_kpis dff inversores_seleccionados)
      | _ \<Rightarrow> Inl Rango_invalido)"

section \<open>Auxiliary definitions for the proofs\<close>

text \<open>
  The three steps of \<^verbatim>\<open>cargar_datos\<close> on a single row, for a parser already applied
  to the column: the row disappears when its cell does not parse, and otherwise carries
  the parsed timestamp and its date.
\<close>

definition limpiar_fila :: "(string \<Rightarrow> timestamp option) \<Rightarrow> string lectura \<Rightarrow> fila option" where
  "limpiar_fila f r =
     (case f (Timestamp r) of
        None \<Rightarrow> None
      | Some t \<Rightarrow> Some \<lparr>Timestamp = t, Nombre_Inversor = Nombre_Inversor r,
                        Potencia_AC_kW = Potencia_AC_kW r,
                        Irradiancia_GHI_W_m2 = Irradiancia_GHI_W_m2 r, Fecha = ts_date t\<rparr>)"

text \<open>
  Concrete tables on which the pipeline is evaluated. The cleaned table has two rows of
  Inversor-A with 10 kW and 20 kW on 10 and 11 July, one idle row of Inversor-B and one
  row on 12 July. The raw table has one well-formed timestamp and the malformed one
  quoted in the comment of line 21.
\<close>

definition fila_ej :: "string \<Rightarrow> nat \<Rightarrow> nat \<Rightarrow> real \<Rightarrow> real \<Rightarrow> fila" where
  "fila_ej inversor d h p g =
     \<lparr>Timestamp = \<lparr>ts_date = Date 2025 7 d, ts_hour = h, ts_minute = 0, ts_second = 0\<rparr>,
      Nombre_Inversor = inversor, Potencia_AC_kW = p, Irradiancia_GHI_W_m2 = g,
      Fecha = Date 2025 7 d\<rparr>"

definition tabla_ejemplo :: "fila list" where
  "tabla_ejemplo =
     [fila_ej ''Inversor-A'' 10 12 10 600,
      fila_ej ''Inversor-B'' 10 12 0 600,
      fila_ej ''Inversor-A'' 11 12 20 800,
      fila_ej ''Inversor-A'' 12 12 45 900]"

definition analiza_ej :: "string list \<Rightarrow> string \<Rightarrow> timestamp option" where
  "analiza_ej col s =
     (if s = ''2025-07-10 08:45:00''
      then Some \<lparr>ts_date = Date 2025 7 10, ts_hour = 8, ts_minute = 45, ts_second = 0\<rparr>
      else None)"

definition csv_ejemplo :: "string lectura list" where
  "csv_ejemplo =
     [\<lparr>Timestamp = ''2025-07-10 08:45:00'', Nombre_Inversor = ''Inversor-A'',
       Potencia_AC_kW = 10, Irradiancia_GHI_W_m2 = 600\<rparr>,
      \<lparr>Timestamp = ''2loc 08:45:00'', Nombre_Inversor = ''Inversor-B'',
       Potencia_AC_kW = 33, Irradiancia_GHI_W_m2 = 777\<rparr>]"

section \<open>Properties of the generator\<close>

subsection \<open>Shapes and entries of the arrays\<close>

lemma length_timestamps: "length timestamps = 72"
  by (simp add: timestamps_def)

lemma length_irradiancia_base: "length (irradiancia_base r1) = 72"
  by (simp add: irradiancia_base_def np_maximum0_def np_add_def np_scale_def
      ciclo_solar_base_def horas_dia_def np_random_normal_def)

lemma nth_irradiancia_base:
  "i < 72 \<Longrightarrow> irradiancia_base r1 ! i = max 0 ((sin (pi * real (i mod 24) / 24))\<^sup>2 * 1000 + r1 i)"
  by (simp add: irradiancia_base_def np_maximum0_def np_add_def np_scale_def
      ciclo_solar_base_def horas_dia_def np_random_normal_def)

lemma length_irradiancia_dia2: "length (irradiancia_dia2 r1 r2) = 72"
  by (simp add: irradiancia_dia2_def np_maximum0_def np_add_def np_scale_def
      length_irradiancia_base np_random_normal_def)

lemma length_potencia_dia1: "length (potencia_dia1 r1) = 72"
  by (simp add: potencia_dia1_def irradiancia_dia1_def np_scale_def length_irradiancia_base)

lemma length_potencia_dia2: "length (potencia_dia2 r1 r2) = 72"
  by (simp add: potencia_dia2_def np_scale_def length_irradiancia_dia2)

lemma length_potencia_dia3: "length (potencia_dia3 r1) = 72"
  by (simp add: potencia_dia3_def irradiancia_dia3_def np_scale_def length_irradiancia_base Let_def)

lemma nth_potencia_dia1:
  "i < 72 \<Longrightarrow> potencia_dia1 r1 ! i = irradiancia_base r1 ! i * 0.15"
  by (simp add: potencia_dia1_def irradiancia_dia1_def np_scale_def length_irradiancia_base)

lemma nth_potencia_dia3:
  "i < 72 \<Longrightarrow> potencia_dia3 r1 ! i =
     (if i = 38 then irradiancia_base r1 ! i * 0.15 * 0.4
      else if i = 35 then irradiancia_base r1 ! i * 0.15 * 0.3
      else irradiancia_base r1 ! i * 0.15)"
  by (simp add: potencia_dia3_def irradiancia_dia3_def np_scale_def length_irradiancia_base
      Let_def nth_list_update)

lemma length_df_dia:
  "length irr = 72 \<Longrightarrow> length pot = 72 \<Longrightarrow> length (df_dia e irr pot) = 72"
  by (simp add: df_dia_def length_timestamps)

lemma nth_df_dia:
  "length irr = 72 \<Longrightarrow> length pot = 72 \<Longrightarrow> i < 72 \<Longrightarrow>
   df_dia e irr pot ! i =
     \<lparr>fila_pv.Timestamp = timestamps ! i, Irradiancia = irr ! i, Potencia = pot ! i, Dia = e\<rparr>"
  by (simp add: df_dia_def length_timestamps)

lemma Dia_df_dia: "r \<in> set (df_dia e irr pot) \<Longrightarrow> Dia r = e"
  by (auto simp: df_dia_def)

lemma Irradiancia_df_dia: "r \<in> set (df_dia e irr pot) \<Longrightarrow> Irradiancia r \<in> set irr"
proof -
  assume "r \<in> set (df_dia e irr pot)"
  then obtain t i p where z: "(t, i, p) \<in> set (zip timestamps (zip irr pot))"
    and r: "r = \<lparr>fila_pv.Timestamp = t, Irradiancia = i, Potencia = p, Dia = e\<rparr>"
    by (auto simp: df_dia_def)
  from z have "(i, p) \<in> set (zip irr pot)" by (rule set_zip_rightD)
  then have "i \<in> set irr" by (rule set_zip_leftD)
  with r show ?thesis by simp
qed

lemma Timestamp_df_dia:
  assumes "length irr = 72" "length pot = 72"
  shows "map fila_pv.Timestamp (df_dia e irr pot) = timestamps"
proof (rule nth_equalityI)
  show "length (map fila_pv.Timestamp (df_dia e irr pot)) = length timestamps"
    using assms by (simp add: length_df_dia length_timestamps)
next
  fix i
  assume "i < length (map fila_pv.Timestamp (df_dia e irr pot))"
  then have "i < 72" using assms by (simp add: length_df_dia)
  then show "map fila_pv.Timestamp (df_dia e irr pot) ! i = timestamps ! i"
    using assms by (simp add: length_df_dia nth_df_dia)
qed


lemma etiquetas_distintas:
  "etiqueta_dia1 \<noteq> etiqueta_dia2" "etiqueta_dia1 \<noteq> etiqueta_dia3" "etiqueta_dia2 \<noteq> etiqueta_dia3"
  by (simp_all add: etiqueta_dia1_def etiqueta_dia2_def etiqueta_dia3_def)

lemma filter_df_dia_same: "filter (\<lambda>r. Dia r = e) (df_dia e irr pot) = df_dia e irr pot"
  by (simp add: Dia_df_dia)

lemma filter_df_dia_other: "e' \<noteq> e \<Longrightarrow> filter (\<lambda>r. Dia r = e) (df_dia e' irr pot) = []"
  by (auto simp: filter_empty_conv dest: Dia_df_dia)

lemma filas_de_dia1: "filas_de etiqueta_dia1 (simular_datos_pv r1 r2) = df_d1 r1"
  using etiquetas_distintas
  by (simp add: filas_de_def simular_datos_pv_def df_d1_def df_d2_def df_d3_def
      filter_df_dia_same filter_df_dia_other)

lemma filas_de_dia2: "filas_de etiqueta_dia2 (simular_datos_pv r1 r2) = df_d2 r1 r2"
  using etiquetas_distintas
  by (simp add: filas_de_def simular_datos_pv_def df_d1_def df_d2_def df_d3_def
      filter_df_dia_same filter_df_dia_other)

lemma filas_de_dia3: "filas_de etiqueta_dia3 (simular_datos_pv r1 r2) = df_d3 r1"
  using etiquetas_distintas
  by (simp add: filas_de_def simular_datos_pv_def df_d1_def df_d2_def df_d3_def
      filter_df_dia_same filter_df_dia_other)

lemma length_df_d1: "length (df_d1 r1) = 72"
  by (simp add: df_d1_def length_df_dia irradiancia_dia1_def length_irradiancia_base length_potencia_dia1)

lemma length_df_d2: "length (df_d2 r1 r2) = 72"
  by (simp add: df_d2_def length_df_dia length_irradiancia_dia2 length_potencia_dia2)

lemma length_df_d3: "length (df_d3 r1) = 72"
  by (simp add: df_d3_def length_df_dia irradiancia_dia3_def length_irradiancia_base length_potencia_dia3)

lemma np_maximum0_nonneg: "x \<in> set (np_maximum0 a) \<Longrightarrow> 0 \<le> x"
  by (auto simp: np_maximum0_def)

lemma Irradiancia_nonneg:
  assumes "r \<in> set (simular_datos_pv r1 r2)"
  shows "0 \<le> Irradiancia r"
proof -
  from assms have "Irradiancia r \<in> set (irradiancia_base r1) \<or> Irradiancia r \<in> set (irradiancia_dia2 r1 r2)"
    by (auto simp: simular_datos_pv_def df_d1_def df_d2_def df_d3_def irradiancia_dia1_def
        irradiancia_dia3_def dest: Irradiancia_df_dia)
  then show ?thesis
    by (auto simp: irradiancia_base_def irradiancia_dia2_def dest: np_maximum0_nonneg)
qed

lemma nth_df_d1:
  "i < 72 \<Longrightarrow> df_d1 r1 ! i =
     \<lparr>fila_pv.Timestamp = timestamps ! i, Irradiancia = irradiancia_base r1 ! i,
      Potencia = irradiancia_base r1 ! i * 0.15, Dia = etiqueta_dia1\<rparr>"
  by (simp add: df_d1_def nth_df_dia irradiancia_dia1_def length_irradiancia_base
      length_potencia_dia1 nth_potencia_dia1)

lemma nth_df_d3:
  "i < 72 \<Longrightarrow> df_d3 r1 ! i =
     \<lparr>fila_pv.Timestamp = timestamps ! i, Irradiancia = irradiancia_base r1 ! i,
      Potencia = potencia_dia3 r1 ! i, Dia = etiqueta_dia3\<rparr>"
  by (simp add: df_d3_def nth_df_dia irradiancia_dia3_def length_irradiancia_base
      length_potencia_dia3)

lemma nth_timestamps:
  "i < 72 \<Longrightarrow> timestamps ! i =
     \<lparr>ts_date = Date 2025 7 (1 + i div 24), ts_hour = i mod 24, ts_minute = 0, ts_second = 0\<rparr>"
  by (simp add: timestamps_def)

lemma irradiancia_sin_ruido_11: "0 < irradiancia_base sin_ruido ! 11"
proof -
  have "0 < sin (pi * 11 / 24)"
    by (rule sin_gt_zero) (simp_all add: pi_gt_zero)
  then have "0 < (sin (pi * 11 / 24))\<^sup>2 * 1000" by simp
  then show ?thesis by (simp add: nth_irradiancia_base sin_ruido_def)
qed

lemma irradiancia_sin_ruido_35: "0 < irradiancia_base sin_ruido ! 35"
proof -
  have "0 < sin (pi * 11 / 24)"
    by (rule sin_gt_zero) (simp_all add: pi_gt_zero)
  then have "0 < (sin (pi * 11 / 24))\<^sup>2 * 1000" by simp
  then show ?thesis by (simp add: nth_irradiancia_base sin_ruido_def)
qed

lemma Timestamp_df_d1: "map fila_pv.Timestamp (df_d1 r1) = timestamps"
  by (simp add: df_d1_def Timestamp_df_dia irradiancia_dia1_def length_irradiancia_base
      length_potencia_dia1)

lemma Timestamp_df_d2: "map fila_pv.Timestamp (df_d2 r1 r2) = timestamps"
  by (simp add: df_d2_def Timestamp_df_dia length_irradiancia_dia2 length_potencia_dia2)

lemma Timestamp_df_d3: "map fila_pv.Timestamp (df_d3 r1) = timestamps"
  by (simp add: df_d3_def Timestamp_df_dia irradiancia_dia3_def length_irradiancia_base
      length_potencia_dia3)

subsection \<open>Row count and sign of the irradiance\<close>

text \<open>
  Claim C1. For every run of the generator, whatever the two noise draws, the returned
  table has exactly 216 rows: it is the concatenation of the three sub-tables labelled
  day 1, day 2 and day 3, each of 72 rows over the same 72 hourly timestamps, and the
  irradiance of every row is at least 0.
\<close>

theorem generador_216_filas_irradiancia_no_negativa:
  "length (simular_datos_pv ruido1 ruido2) = 216 \<and>
   length (filas_de etiqueta_dia1 (simular_datos_pv ruido1 ruido2)) = 72 \<and>
   length (filas_de etiqueta_dia2 (simular_datos_pv ruido1 ruido2)) = 72 \<and>
   length (filas_de etiqueta_dia3 (simular_datos_pv ruido1 ruido2)) = 72 \<and>
   simular_datos_pv ruido1 ruido2 =
     filas_de etiqueta_dia1 (simular_datos_pv ruido1 ruido2) @
     filas_de etiqueta_dia2 (simular_datos_pv ruido1 ruido2) @
     filas_de etiqueta_dia3 (simular_datos_pv ruido1 ruido2) \<and>
   map fila_pv.Timestamp (filas_de etiqueta_dia1 (simular_datos_pv ruido1 ruido2)) = timestamps \<and>
   map fila_pv.Timestamp (filas_de etiqueta_dia2 (simular_datos_pv ruido1 ruido2)) = timestamps \<and>
   map fila_pv.Timestamp (filas_de etiqueta_dia3 (simular_datos_pv ruido1 ruido2)) = timestamps \<and>
   length timestamps = 72 \<and>
   (\<forall>r \<in> set (simular_datos_pv ruido1 ruido2). 0 \<le> Irradiancia r)"
proof -
  have n: "length (simular_datos_pv ruido1 ruido2) = 216"
    by (simp add: simular_datos_pv_def length_df_d1 length_df_d2 length_df_d3)
  have n1: "length (filas_de etiqueta_dia1 (simular_datos_pv ruido1 ruido2)) = 72"
    by (simp only: filas_de_dia1 length_df_d1)
  have n2: "length (filas_de etiqueta_dia2 (simular_datos_pv ruido1 ruido2)) = 72"
    by (simp only: filas_de_dia2 length_df_d2)
  have n3: "length (filas_de etiqueta_dia3 (simular_datos_pv ruido1 ruido2)) = 72"
    by (simp only: filas_de_dia3 length_df_d3)
  have c: "simular_datos_pv ruido1 ruido2 =
     filas_de etiqueta_dia1 (simular_datos_pv ruido1 ruido2) @
     filas_de etiqueta_dia2 (simular_datos_pv ruido1 ruido2) @
     filas_de etiqueta_dia3 (simular_datos_pv ruido1 ruido2)"
    unfolding filas_de_dia1 filas_de_dia2 filas_de_dia3 by (simp add: simular_datos_pv_def)
  have t1: "map fila_pv.Timestamp (filas_de etiqueta_dia1 (simular_datos_pv ruido1 ruido2)) =
      timestamps"
    by (simp only: filas_de_dia1 Timestamp_df_d1)
  have t2: "map fila_pv.Timestamp (filas_de etiqueta_dia2 (simular_datos_pv ruido1 ruido2)) =
      timestamps"
    by (simp only: filas_de_dia2 Timestamp_df_d2)
  have t3: "map fila_pv.Timestamp (filas_de etiqueta_dia3 (simular_datos_pv ruido1 ruido2)) =
      timestamps"
    by (simp only: filas_de_dia3 Timestamp_df_d3)
  have i: "\<forall>r \<in> set (simular_datos_pv ruido1 ruido2). 0 \<le> Irradiancia r"
    by (simp add: Irradiancia_nonneg)
  from n n1 n2 n3 c t1 t2 t3 length_timestamps i show ?thesis
    by blast
qed

theorem generador_216_filas_witness:
  "length (simular_datos_pv sin_ruido sin_ruido) = 216 \<and>
   simular_datos_pv sin_ruido sin_ruido ! 0 \<in> set (simular_datos_pv sin_ruido sin_ruido) \<and>
   0 \<le> Irradiancia (simular_datos_pv sin_ruido sin_ruido ! 0)"
  using generador_216_filas_irradiancia_no_negativa [of sin_ruido sin_ruido]
  by (metis nth_mem zero_less_numeral)

subsection \<open>Power against irradiance, and the two clipped samples of day 3\<close>

text \<open>
  Claim C2, as amended. For every run, every row of day 1 has power equal to irradiance
  times 0.15, and so has every row of day 3 except the two at positions 24 + 11 = 35 and
  24 + 14 = 38 of the day's 72 rows, which are the samples of 2 July 2025 at 11:00 and
  14:00; there the power is irradiance times 0.15 times 0.3, respectively times 0.4. The
  irradiance of every row of day 3, the two clipped ones included, is the base curve's.
\<close>

theorem recorte_dia3_en_35_y_38:
  "(\<forall>i<72. Potencia (filas_de etiqueta_dia1 (simular_datos_pv ruido1 ruido2) ! i) =
             Irradiancia (filas_de etiqueta_dia1 (simular_datos_pv ruido1 ruido2) ! i) * 0.15) \<and>
   (\<forall>i<72. i \<noteq> 24 + 11 \<and> i \<noteq> 24 + 14 \<longrightarrow>
             Potencia (filas_de etiqueta_dia3 (simular_datos_pv ruido1 ruido2) ! i) =
             Irradiancia (filas_de etiqueta_dia3 (simular_datos_pv ruido1 ruido2) ! i) * 0.15) \<and>
   Potencia (filas_de etiqueta_dia3 (simular_datos_pv ruido1 ruido2) ! (24 + 11)) =
     Irradiancia (filas_de etiqueta_dia3 (simular_datos_pv ruido1 ruido2) ! (24 + 11)) * 0.15 * 0.3 \<and>
   Potencia (filas_de etiqueta_dia3 (simular_datos_pv ruido1 ruido2) ! (24 + 14)) =
     Irradiancia (filas_de etiqueta_dia3 (simular_datos_pv ruido1 ruido2) ! (24 + 14)) * 0.15 * 0.4 \<and>
   (\<forall>i<72. Irradiancia (filas_de etiqueta_dia3 (simular_datos_pv ruido1 ruido2) ! i) =
             irradiancia_base ruido1 ! i) \<and>
   fila_pv.Timestamp (filas_de etiqueta_dia3 (simular_datos_pv ruido1 ruido2) ! (24 + 11)) =
     \<lparr>ts_date = Date 2025 7 2, ts_hour = 11, ts_minute = 0, ts_second = 0\<rparr> \<and>
   fila_pv.Timestamp (filas_de etiqueta_dia3 (simular_datos_pv ruido1 ruido2) ! (24 + 14)) =
     \<lparr>ts_date = Date 2025 7 2, ts_hour = 14, ts_minute = 0, ts_second = 0\<rparr>"
  by (simp add: filas_de_dia1 filas_de_dia3 nth_df_d1 nth_df_d3 nth_potencia_dia3 nth_timestamps)

theorem recorte_dia3_witness:
  "Potencia (filas_de etiqueta_dia3 (simular_datos_pv sin_ruido sin_ruido) ! 11) =
     Irradiancia (filas_de etiqueta_dia3 (simular_datos_pv sin_ruido sin_ruido) ! 11) * 0.15 \<and>
   Potencia (filas_de etiqueta_dia1 (simular_datos_pv sin_ruido sin_ruido) ! 35) =
     Irradiancia (filas_de etiqueta_dia1 (simular_datos_pv sin_ruido sin_ruido) ! 35) * 0.15 \<and>
   Irradiancia (filas_de etiqueta_dia3 (simular_datos_pv sin_ruido sin_ruido) ! 35) =
     irradiancia_base sin_ruido ! 35"
  using recorte_dia3_en_35_y_38 [of sin_ruido sin_ruido] by simp

text \<open>
  The claim as first stated puts the clipped samples at index 11 and 14, hours 11 and 14
  of the day. In the run without noise, the row of day 3 at index 11, which is the sample
  of 1 July at 11:00, has a positive irradiance and its power is irradiance times 0.15,
  not that value times 0.3; and the row at index 35 does not satisfy power = irradiance
  times 0.15.
\<close>

theorem recorte_dia3_indice_11_counterexample:
  "Dia (filas_de etiqueta_dia3 (simular_datos_pv sin_ruido sin_ruido) ! 11) = etiqueta_dia3 \<and>
   fila_pv.Timestamp (filas_de etiqueta_dia3 (simular_datos_pv sin_ruido sin_ruido) ! 11) =
     \<lparr>ts_date = Date 2025 7 1, ts_hour = 11, ts_minute = 0, ts_second = 0\<rparr> \<and>
   Potencia (filas_de etiqueta_dia3 (simular_datos_pv sin_ruido sin_ruido) ! 11) \<noteq>
     Irradiancia (filas_de etiqueta_dia3 (simular_datos_pv sin_ruido sin_ruido) ! 11) * 0.15 * 0.3 \<and>
   Potencia (filas_de etiqueta_dia3 (simular_datos_pv sin_ruido sin_ruido) ! 35) \<noteq>
     Irradiancia (filas_de etiqueta_dia3 (simular_datos_pv sin_ruido sin_ruido) ! 35) * 0.15"
  using irradiancia_sin_ruido_11 irradiancia_sin_ruido_35
  by (simp add: filas_de_dia3 nth_df_d3 nth_potencia_dia3 nth_timestamps)

section \<open>Properties of the pipeline\<close>

subsection \<open>The mask is a filter\<close>

lemma indexar_map: "indexar df (map P df) = filter P df"
  by (induction df) (simp_all add: indexar_def)

lemma mascara_y_map: "mascara_y (map P xs) (map Q xs) = map (\<lambda>x. P x \<and> Q x) xs"
  by (induction xs) (simp_all add: mascara_y_def)

lemma df_filtrado_filter:
  "df_filtrado df sel a b =
     filter (\<lambda>r. Nombre_Inversor r \<in> set sel \<and> date_le a (Fecha r) \<and> date_le (Fecha r) b) df"
proof -
  have "mascara_y
          (mascara_y (isin (map Nombre_Inversor df) sel) (fecha_ge (map Fecha df) a))
          (fecha_le (map Fecha df) b)
        = map (\<lambda>r. (Nombre_Inversor r \<in> set sel \<and> date_le a (Fecha r)) \<and> date_le (Fecha r) b) df"
    by (simp add: isin_def fecha_ge_def fecha_le_def mascara_y_map comp_def)
  then show ?thesis
    by (simp add: df_filtrado_def indexar_map conj_assoc)
qed

lemma dropna_Timestamp_Nil: "dropna_Timestamp [] = []"
  by (simp add: dropna_Timestamp_def map_filter_simps)

lemma dropna_Timestamp_Cons:
  "dropna_Timestamp (r # df) =
     (case Timestamp r of
        None \<Rightarrow> dropna_Timestamp df
      | Some t \<Rightarrow> \<lparr>Timestamp = t, Nombre_Inversor = Nombre_Inversor r,
                    Potencia_AC_kW = Potencia_AC_kW r,
                    Irradiancia_GHI_W_m2 = Irradiancia_GHI_W_m2 r\<rparr> # dropna_Timestamp df)"
  by (simp add: dropna_Timestamp_def map_filter_simps split: option.split)

subsection \<open>Cleaning row by row\<close>

lemma cargar_aux:
  "con_Fecha (dropna_Timestamp (map (\<lambda>r. \<lparr>Timestamp = f (Timestamp r),
                Nombre_Inversor = Nombre_Inversor r,
                Potencia_AC_kW = Potencia_AC_kW r,
                Irradiancia_GHI_W_m2 = Irradiancia_GHI_W_m2 r\<rparr>) df))
   = List.map_filter (limpiar_fila f) df"
  by (induction df)
    (simp_all add: dropna_Timestamp_Nil dropna_Timestamp_Cons con_Fecha_def map_filter_simps
      limpiar_fila_def split: option.split)

lemma cargar_datos_map_filter:
  "cargar_datos analiza df = List.map_filter (limpiar_fila (analiza (map Timestamp df))) df"
  by (simp add: cargar_datos_def to_datetime_coerce_def cargar_aux)

lemma Fecha_cargar_datos:
  "r \<in> set (cargar_datos analiza df) \<Longrightarrow> Fecha r = ts_date (Timestamp r)"
  by (auto simp: cargar_datos_map_filter map_filter_def limpiar_fila_def split: option.splits)

lemma length_map_filter_limpiar:
  "length (List.map_filter (limpiar_fila f) df) = length (filter (\<lambda>r. f (Timestamp r) \<noteq> None) df)"
  by (induction df) (simp_all add: map_filter_simps limpiar_fila_def split: option.split)

lemma otros_map_filter_limpiar:
  "map otros_campos (List.map_filter (limpiar_fila f) df) =
   map otros_campos (filter (\<lambda>r. f (Timestamp r) \<noteq> None) df)"
  by (induction df) (auto simp add: map_filter_simps limpiar_fila_def otros_campos_def split: option.split)

lemma ts_map_filter_limpiar:
  "map (\<lambda>r. Some (Timestamp r)) (List.map_filter (limpiar_fila f) df) =
   map (\<lambda>r. f (Timestamp r)) (filter (\<lambda>r. f (Timestamp r) \<noteq> None) df)"
  by (induction df) (auto simp add: map_filter_simps limpiar_fila_def split: option.split)

lemma length_filter_partition:
  "length (filter P xs) + length (filter (\<lambda>x. \<not> P x) xs) = length xs"
  by (induction xs) simp_all


lemma date_le_refl: "date_le d d"
  by (simp add: date_le_def)

lemma date_le_antisym: "date_le a b \<Longrightarrow> date_le b a \<Longrightarrow> a = b"
  by (cases a, cases b) (auto simp: date_le_def)

subsection \<open>KPIs of a non-empty filtered table\<close>

lemma df_filtrado_sel_ne:
  assumes "df_filtrado df sel a b \<noteq> []"
  shows "\<exists>r \<in> set df. Nombre_Inversor r \<in> set sel"
proof -
  from assms obtain r where "r \<in> set (df_filtrado df sel a b)"
    by (cases "df_filtrado df sel a b") auto
  then show ?thesis by (auto simp: df_filtrado_filter)
qed

lemma serie_max_ne: "col \<noteq> [] \<Longrightarrow> \<exists>m. serie_max col = Inr m"
  by (cases col) (simp_all add: serie_max_def)

lemma calcular_kpis_ok:
  assumes "dff \<noteq> []" "sel \<noteq> []"
  shows "\<exists>k. calcular_kpis dff sel = Inr k \<and>
             energia_total_kwh k = sum_list (map Potencia_AC_kW dff) * 0.25 \<and>
             hsp k = energia_total_kwh k / (50 * real (length sel))"
proof -
  from assms(1) obtain p where p: "serie_max (map Potencia_AC_kW dff) = Inr p"
    using serie_max_ne [of "map Potencia_AC_kW dff"] by auto
  from assms(1) obtain g where g: "serie_max (map Irradiancia_GHI_W_m2 dff) = Inr g"
    using serie_max_ne [of "map Irradiancia_GHI_W_m2 dff"] by auto
  from assms(2) show ?thesis
    by (simp add: calcular_kpis_def p g dividir_def Let_def)
qed

lemma dashboard_ok:
  assumes "df_filtrado df sel a b \<noteq> []"
  shows "\<exists>k. dashboard df sel [a, b] = Inr k \<and>
             energia_total_kwh k = sum_list (map Potencia_AC_kW (df_filtrado df sel a b)) * 0.25 \<and>
             hsp k = energia_total_kwh k / (50 * real (length sel))"
proof -
  from df_filtrado_sel_ne [OF assms] have "sel \<noteq> []" by auto
  from calcular_kpis_ok [OF assms this] assms show ?thesis
    by (simp add: dashboard_def Let_def)
qed

lemma dashboard_Inr:
  assumes "dashboard df sel fechas = Inr k"
  shows "\<exists>a b. fechas = [a, b] \<and> df_filtrado df sel a b \<noteq> []"
  using assms by (auto simp: dashboard_def Let_def split: list.splits if_splits)

lemma df_filtrado_ejemplo_A:
  "df_filtrado tabla_ejemplo [''Inversor-A''] (Date 2025 7 10) (Date 2025 7 11) =
     [fila_ej ''Inversor-A'' 10 12 10 600, fila_ej ''Inversor-A'' 11 12 20 800]"
  by (simp add: df_filtrado_filter tabla_ejemplo_def fila_ej_def date_le_def)

lemma df_filtrado_ejemplo_AB:
  "df_filtrado tabla_ejemplo [''Inversor-A'', ''Inversor-B''] (Date 2025 7 10) (Date 2025 7 11) =
     [fila_ej ''Inversor-A'' 10 12 10 600, fila_ej ''Inversor-B'' 10 12 0 600,
      fila_ej ''Inversor-A'' 11 12 20 800]"
  by (simp add: df_filtrado_filter tabla_ejemplo_def fila_ej_def date_le_def)

lemma df_filtrado_ejemplo_C:
  "df_filtrado tabla_ejemplo [''Inversor-C''] (Date 2025 7 10) (Date 2025 7 11) = []"
  by (simp add: df_filtrado_filter tabla_ejemplo_def fila_ej_def date_le_def)

lemma calcular_kpis_no_divide_por_cero:
  "sel \<noteq> [] \<Longrightarrow> calcular_kpis dff sel \<noteq> Inl Division_por_cero"
  by (simp add: calcular_kpis_def serie_max_def dividir_def Let_def split: list.split sum.split)

subsection \<open>Cleaning\<close>

text \<open>
  Claim C7. For every input table and every parser, with N the number of rows whose
  Timestamp parses and M the number of rows whose Timestamp does not, N + M is the
  number of input rows and the cleaned table has exactly N rows: they are the rows that
  parse, in their order, each with its other columns as read, its parsed timestamp
  and the date of that timestamp. A row that does not parse contributes nothing.
\<close>

theorem limpieza_descarta_timestamps_invalidos:
  "length (cargar_datos analiza csv) = length (filter (timestamp_valido analiza csv) csv) \<and>
   length (filter (timestamp_valido analiza csv) csv) +
     length (filter (\<lambda>r. \<not> timestamp_valido analiza csv r) csv) = length csv \<and>
   map otros_campos (cargar_datos analiza csv) =
     map otros_campos (filter (timestamp_valido analiza csv) csv) \<and>
   map (\<lambda>r. Some (Timestamp r)) (cargar_datos analiza csv) =
     map (\<lambda>r. analiza (map Timestamp csv) (Timestamp r)) (filter (timestamp_valido analiza csv) csv) \<and>
   map Fecha (cargar_datos analiza csv) =
     map (\<lambda>r. ts_date (Timestamp r)) (cargar_datos analiza csv)"
proof -
  have v: "timestamp_valido analiza csv = (\<lambda>r. analiza (map Timestamp csv) (Timestamp r) \<noteq> None)"
    by (rule ext) (simp add: timestamp_valido_def)
  have f: "map Fecha (cargar_datos analiza csv) =
     map (\<lambda>r. ts_date (Timestamp r)) (cargar_datos analiza csv)"
    by (rule map_cong) (simp_all add: Fecha_cargar_datos)
  have n: "length (cargar_datos analiza csv) = length (filter (timestamp_valido analiza csv) csv)"
    unfolding v by (simp only: cargar_datos_map_filter length_map_filter_limpiar)
  have p: "length (filter (timestamp_valido analiza csv) csv) +
     length (filter (\<lambda>r. \<not> timestamp_valido analiza csv r) csv) = length csv"
    by (rule length_filter_partition)
  have c: "map otros_campos (cargar_datos analiza csv) =
     map otros_campos (filter (timestamp_valido analiza csv) csv)"
    unfolding v by (simp only: cargar_datos_map_filter otros_map_filter_limpiar)
  have t: "map (\<lambda>r. Some (Timestamp r)) (cargar_datos analiza csv) =
     map (\<lambda>r. analiza (map Timestamp csv) (Timestamp r)) (filter (timestamp_valido analiza csv) csv)"
    unfolding v by (simp only: cargar_datos_map_filter ts_map_filter_limpiar)
  from n p c t f show ?thesis by blast
qed

theorem limpieza_witness:
  "length (cargar_datos analiza_ej csv_ejemplo) = 1 \<and>
   map otros_campos (cargar_datos analiza_ej csv_ejemplo) = [(''Inversor-A'', 10, 600)]"
  using limpieza_descarta_timestamps_invalidos [of analiza_ej csv_ejemplo]
  by (simp add: timestamp_valido_def csv_ejemplo_def analiza_ej_def otros_campos_def)

subsection \<open>Filtering\<close>

text \<open>
  Claim C5. For every cleaned table, every list of selected inverters and every pair of
  dates, the filtered table is the sub-list of the rows whose inverter is selected and
  whose timestamp's calendar date lies between the start and the end date, both
  included: the rows that satisfy the condition are kept as they are and in order, and
  no other row is kept. With the same date at both ends, the rows kept are those of the
  selected inverters on that date.
\<close>

theorem filtrado_conserva_exactamente_las_filas_que_cumplen:
  "df_filtrado (cargar_datos analiza csv) sel fecha_inicio fecha_fin =
     filter (cumple_filtro sel fecha_inicio fecha_fin) (cargar_datos analiza csv) \<and>
   cumple_filtro sel d d r = (Nombre_Inversor r \<in> set sel \<and> ts_date (Timestamp r) = d)"
proof -
  have "filter (\<lambda>r. Nombre_Inversor r \<in> set sel \<and> date_le fecha_inicio (Fecha r) \<and>
                     date_le (Fecha r) fecha_fin) (cargar_datos analiza csv) =
        filter (cumple_filtro sel fecha_inicio fecha_fin) (cargar_datos analiza csv)"
    by (rule filter_cong) (simp_all add: cumple_filtro_def Fecha_cargar_datos)
  then have a: "df_filtrado (cargar_datos analiza csv) sel fecha_inicio fecha_fin =
     filter (cumple_filtro sel fecha_inicio fecha_fin) (cargar_datos analiza csv)"
    by (simp add: df_filtrado_filter)
  have b: "cumple_filtro sel d d r = (Nombre_Inversor r \<in> set sel \<and> ts_date (Timestamp r) = d)"
    using date_le_refl date_le_antisym by (auto simp: cumple_filtro_def)
  from a b show ?thesis by blast
qed

theorem filtrado_conserva_witness:
  "df_filtrado (cargar_datos analiza_ej csv_ejemplo) [''Inversor-A'']
       (Date 2025 7 10) (Date 2025 7 10) =
     [\<lparr>Timestamp = \<lparr>ts_date = Date 2025 7 10, ts_hour = 8, ts_minute = 45, ts_second = 0\<rparr>,
       Nombre_Inversor = ''Inversor-A'', Potencia_AC_kW = 10, Irradiancia_GHI_W_m2 = 600,
       Fecha = Date 2025 7 10\<rparr>]"
  using filtrado_conserva_exactamente_las_filas_que_cumplen
    [of analiza_ej csv_ejemplo "[''Inversor-A'']" "Date 2025 7 10" "Date 2025 7 10"]
  by (simp add: cargar_datos_map_filter map_filter_simps limpiar_fila_def csv_ejemplo_def
      analiza_ej_def cumple_filtro_def date_le_def)

text \<open>
  Claim C6. Filtering is idempotent: for every table and every criteria, filtering the
  filtered table again with the same criteria returns the filtered table.
\<close>

theorem filtrado_idempotente:
  "df_filtrado (df_filtrado df sel fecha_inicio fecha_fin) sel fecha_inicio fecha_fin =
     df_filtrado df sel fecha_inicio fecha_fin"
  by (simp add: df_filtrado_filter)

subsection \<open>Halts\<close>

text \<open>
  Claim C9. For every date selection that does not consist of exactly two dates, the
  run ends with the invalid-range halt: no filtering and no KPI is computed.
\<close>

theorem rango_invalido_detiene:
  assumes "length fechas \<noteq> 2"
  shows "dashboard df sel fechas = Inl Rango_invalido"
proof (cases fechas)
  case Nil
  then show ?thesis by (simp add: dashboard_def)
next
  case (Cons a as)
  note c1 = this
  show ?thesis
  proof (cases as)
    case Nil
    with c1 show ?thesis by (simp add: dashboard_def)
  next
    case (Cons b bs)
    with c1 assms obtain c cs where "bs = c # cs" by (cases bs) auto
    with c1 Cons show ?thesis by (simp add: dashboard_def)
  qed
qed

theorem rango_invalido_witness:
  "length [Date 2025 7 10] \<noteq> 2 \<and>
   dashboard tabla_ejemplo [''Inversor-A''] [Date 2025 7 10] = Inl Rango_invalido \<and>
   dashboard tabla_ejemplo [''Inversor-A''] [] = Inl Rango_invalido \<and>
   dashboard tabla_ejemplo [''Inversor-A''] [Date 2025 7 10, Date 2025 7 11, Date 2025 7 12]
     = Inl Rango_invalido"
  using rango_invalido_detiene [of "[Date 2025 7 10]" tabla_ejemplo "[''Inversor-A'']"]
    rango_invalido_detiene [of "[]" tabla_ejemplo "[''Inversor-A'']"]
    rango_invalido_detiene [of "[Date 2025 7 10, Date 2025 7 11, Date 2025 7 12]" tabla_ejemplo "[''Inversor-A'']"]
  by simp

text \<open>
  Claim C8. For every criteria whose filtered table is empty, the run ends with the
  no-data halt, which is distinct from every other outcome; the KPI arithmetic is not
  evaluated on the empty table, where the maximum would be undefined.
\<close>

theorem filtrado_vacio_detiene_antes_de_kpis:
  assumes "df_filtrado df sel fecha_inicio fecha_fin = []"
  shows "dashboard df sel [fecha_inicio, fecha_fin] = Inl Sin_datos \<and>
         calcular_kpis [] sel = Inl Max_de_vacio \<and>
         dashboard df sel [fecha_inicio, fecha_fin] \<noteq>
           calcular_kpis (df_filtrado df sel fecha_inicio fecha_fin) sel"
  using assms by (simp add: dashboard_def calcular_kpis_def serie_max_def)

theorem filtrado_vacio_witness:
  "df_filtrado tabla_ejemplo [''Inversor-C''] (Date 2025 7 10) (Date 2025 7 11) = [] \<and>
   dashboard tabla_ejemplo [''Inversor-C''] [Date 2025 7 10, Date 2025 7 11] = Inl Sin_datos"
  using filtrado_vacio_detiene_antes_de_kpis [OF df_filtrado_ejemplo_C]
  by (simp add: df_filtrado_ejemplo_C)

subsection \<open>KPIs\<close>

text \<open>
  Claim C3. For every non-empty filtered table the run reaches the KPIs and the total
  energy is the sum of the power column of the filtered table times 0.25; when that
  column holds exactly 10 and 20, the total energy is (10 + 20) * 0.25 = 7.5.
\<close>

theorem energia_total_es_suma_por_un_cuarto:
  assumes "df_filtrado df sel a b \<noteq> []"
  shows "\<exists>k. dashboard df sel [a, b] = Inr k \<and>
             energia_total_kwh k =
               sum_list (map Potencia_AC_kW (df_filtrado df sel a b)) * 0.25 \<and>
             (map Potencia_AC_kW (df_filtrado df sel a b) = [10, 20] \<longrightarrow>
                energia_total_kwh k = (10 + 20) * 0.25 \<and> energia_total_kwh k = 7.5)"
proof -
  from dashboard_ok [OF assms] obtain k where
    k: "dashboard df sel [a, b] = Inr k"
       "energia_total_kwh k = sum_list (map Potencia_AC_kW (df_filtrado df sel a b)) * 0.25"
    by blast
  then show ?thesis by auto
qed

theorem energia_total_witness:
  "df_filtrado tabla_ejemplo [''Inversor-A''] (Date 2025 7 10) (Date 2025 7 11) \<noteq> [] \<and>
   map Potencia_AC_kW
     (df_filtrado tabla_ejemplo [''Inversor-A''] (Date 2025 7 10) (Date 2025 7 11)) = [10, 20] \<and>
   (\<exists>k. dashboard tabla_ejemplo [''Inversor-A''] [Date 2025 7 10, Date 2025 7 11] = Inr k \<and>
        energia_total_kwh k = 7.5)"
proof -
  have ne: "df_filtrado tabla_ejemplo [''Inversor-A''] (Date 2025 7 10) (Date 2025 7 11) \<noteq> []"
    by (simp only: df_filtrado_ejemplo_A) simp
  have m: "map Potencia_AC_kW
     (df_filtrado tabla_ejemplo [''Inversor-A''] (Date 2025 7 10) (Date 2025 7 11)) = [10, 20]"
    by (simp only: df_filtrado_ejemplo_A) (simp add: fila_ej_def)
  from energia_total_es_suma_por_un_cuarto [OF ne] m ne show ?thesis by blast
qed

text \<open>
  Claim C4. For every non-empty filtered table the selection of inverters is not empty
  and the peak sun hours are the total energy divided by 50 times the number of
  selected inverters; so of two runs with the same total energy, one with one inverter
  selected and one with two, the second reports half the peak sun hours of the first.
\<close>

theorem hsp_es_energia_entre_50_por_inversor:
  assumes "df_filtrado df1 sel1 a1 b1 \<noteq> []" and "df_filtrado df2 sel2 a2 b2 \<noteq> []"
  shows "\<exists>k1 k2. dashboard df1 sel1 [a1, b1] = Inr k1 \<and> dashboard df2 sel2 [a2, b2] = Inr k2 \<and>
           sel1 \<noteq> [] \<and> sel2 \<noteq> [] \<and>
           hsp k1 = energia_total_kwh k1 / (50 * real (length sel1)) \<and>
           hsp k2 = energia_total_kwh k2 / (50 * real (length sel2)) \<and>
           (energia_total_kwh k1 = energia_total_kwh k2 \<and> length sel1 = 1 \<and> length sel2 = 2
              \<longrightarrow> hsp k2 = hsp k1 / 2)"
proof -
  from dashboard_ok [OF assms(1)] obtain k1 where
    k1: "dashboard df1 sel1 [a1, b1] = Inr k1"
        "hsp k1 = energia_total_kwh k1 / (50 * real (length sel1))"
    by blast
  from dashboard_ok [OF assms(2)] obtain k2 where
    k2: "dashboard df2 sel2 [a2, b2] = Inr k2"
        "hsp k2 = energia_total_kwh k2 / (50 * real (length sel2))"
    by blast
  from df_filtrado_sel_ne [OF assms(1)] have s1: "sel1 \<noteq> []" by auto
  from df_filtrado_sel_ne [OF assms(2)] have s2: "sel2 \<noteq> []" by auto
  have "energia_total_kwh k1 = energia_total_kwh k2 \<and> length sel1 = 1 \<and> length sel2 = 2
          \<longrightarrow> hsp k2 = hsp k1 / 2"
    using k1(2) k2(2) by simp
  with k1 k2 s1 s2 show ?thesis by blast
qed

theorem hsp_witness:
  "df_filtrado tabla_ejemplo [''Inversor-A''] (Date 2025 7 10) (Date 2025 7 11) \<noteq> [] \<and>
   df_filtrado tabla_ejemplo [''Inversor-A'', ''Inversor-B''] (Date 2025 7 10) (Date 2025 7 11) \<noteq> [] \<and>
   (\<exists>k1 k2.
      dashboard tabla_ejemplo [''Inversor-A''] [Date 2025 7 10, Date 2025 7 11] = Inr k1 \<and>
      dashboard tabla_ejemplo [''Inversor-A'', ''Inversor-B''] [Date 2025 7 10, Date 2025 7 11] = Inr k2 \<and>
      energia_total_kwh k1 = energia_total_kwh k2 \<and>
      hsp k1 = energia_total_kwh k1 / 50 \<and> hsp k2 = energia_total_kwh k2 / 100 \<and>
      hsp k2 = hsp k1 / 2)"
proof -
  have n1: "df_filtrado tabla_ejemplo [''Inversor-A''] (Date 2025 7 10) (Date 2025 7 11) \<noteq> []"
    by (simp only: df_filtrado_ejemplo_A) simp
  have n2: "df_filtrado tabla_ejemplo [''Inversor-A'', ''Inversor-B''] (Date 2025 7 10) (Date 2025 7 11) \<noteq> []"
    by (simp only: df_filtrado_ejemplo_AB) simp
  from hsp_es_energia_entre_50_por_inversor [OF n1 n2] obtain k1 k2 where
    k: "dashboard tabla_ejemplo [''Inversor-A''] [Date 2025 7 10, Date 2025 7 11] = Inr k1"
       "dashboard tabla_ejemplo [''Inversor-A'', ''Inversor-B''] [Date 2025 7 10, Date 2025 7 11] = Inr k2"
       "hsp k1 = energia_total_kwh k1 / (50 * real (length [''Inversor-A'']))"
       "hsp k2 = energia_total_kwh k2 / (50 * real (length [''Inversor-A'', ''Inversor-B'']))"
       "energia_total_kwh k1 = energia_total_kwh k2 \<and> length [''Inversor-A''] = 1 \<and>
          length [''Inversor-A'', ''Inversor-B''] = 2 \<longrightarrow> hsp k2 = hsp k1 / 2"
    by blast
  from dashboard_ok [OF n1] k(1) have
    "energia_total_kwh k1 = sum_list (map Potencia_AC_kW
       (df_filtrado tabla_ejemplo [''Inversor-A''] (Date 2025 7 10) (Date 2025 7 11))) * 0.25"
    by auto
  then have e1: "energia_total_kwh k1 = 7.5"
    by (simp add: df_filtrado_ejemplo_A fila_ej_def)
  from dashboard_ok [OF n2] k(2) have
    "energia_total_kwh k2 = sum_list (map Potencia_AC_kW
       (df_filtrado tabla_ejemplo [''Inversor-A'', ''Inversor-B''] (Date 2025 7 10) (Date 2025 7 11))) * 0.25"
    by auto
  then have e2: "energia_total_kwh k2 = 7.5"
    by (simp add: df_filtrado_ejemplo_AB fila_ej_def)
  from k e1 e2 n1 n2 show ?thesis by simp
qed

text \<open>
  Claim C10. The division of the peak sun hours never divides by zero: no run ends
  in a division by zero; a non-empty filtered table has a row whose inverter is
  selected, so the selection is not empty and the divisor is at least 50; and a run
  that reaches the KPIs had a two-date selection and a non-empty filtered table.
\<close>

theorem hsp_nunca_divide_por_cero:
  "dashboard df sel fechas \<noteq> Inl Division_por_cero \<and>
   (df_filtrado df sel fecha_inicio fecha_fin \<noteq> [] \<longrightarrow>
      (\<exists>r \<in> set df. Nombre_Inversor r \<in> set sel) \<and> sel \<noteq> [] \<and> 50 \<le> 50 * length sel) \<and>
   (\<forall>k. dashboard df sel fechas = Inr k \<longrightarrow>
      (\<exists>a b. fechas = [a, b] \<and> df_filtrado df sel a b \<noteq> []) \<and> 50 \<le> 50 * length sel)"
proof -
  have a: "dashboard df sel fechas \<noteq> Inl Division_por_cero"
  proof
    assume d: "dashboard df sel fechas = Inl Division_por_cero"
    then obtain a b where f: "fechas = [a, b]" and ne: "df_filtrado df sel a b \<noteq> []"
      and c: "calcular_kpis (df_filtrado df sel a b) sel = Inl Division_por_cero"
      by (auto simp: dashboard_def Let_def split: list.splits if_splits)
    from df_filtrado_sel_ne [OF ne] have "sel \<noteq> []" by auto
    from calcular_kpis_no_divide_por_cero [OF this] c show False by blast
  qed
  have b: "df_filtrado df sel c d \<noteq> [] \<Longrightarrow>
      (\<exists>r \<in> set df. Nombre_Inversor r \<in> set sel) \<and> sel \<noteq> [] \<and> 50 \<le> 50 * length sel" for c d
    using df_filtrado_sel_ne [of df sel c d] by (cases sel) auto
  have c: "dashboard df sel fechas = Inr k \<Longrightarrow>
      (\<exists>a b. fechas = [a, b] \<and> df_filtrado df sel a b \<noteq> []) \<and> 50 \<le> 50 * length sel" for k
    using dashboard_Inr [of df sel fechas k] b by blast
  from a b c show ?thesis by blast
qed

theorem hsp_nunca_divide_por_cero_witness:
  "dashboard tabla_ejemplo [] [Date 2025 7 10, Date 2025 7 11] \<noteq> Inl Division_por_cero \<and>
   dashboard tabla_ejemplo [] [Date 2025 7 10, Date 2025 7 11] = Inl Sin_datos \<and>
   df_filtrado tabla_ejemplo [''Inversor-A''] (Date 2025 7 10) (Date 2025 7 11) \<noteq> [] \<and>
   (\<exists>r \<in> set tabla_ejemplo. Nombre_Inversor r \<in> set [''Inversor-A'']) \<and>
   (50::nat) \<le> 50 * length [''Inversor-A''] \<and>
   (\<exists>k. dashboard tabla_ejemplo [''Inversor-A''] [Date 2025 7 10, Date 2025 7 11] = Inr k) \<and>
   (\<exists>a b. [Date 2025 7 10, Date 2025 7 11] = [a, b] \<and>
          df_filtrado tabla_ejemplo [''Inversor-A''] a b \<noteq> [])"
proof -
  have n: "df_filtrado tabla_ejemplo [''Inversor-A''] (Date 2025 7 10) (Date 2025 7 11) \<noteq> []"
    by (simp only: df_filtrado_ejemplo_A) simp
  have e: "df_filtrado tabla_ejemplo [] (Date 2025 7 10) (Date 2025 7 11) = []"
    by (simp add: df_filtrado_filter)
  from hsp_nunca_divide_por_cero
    [of tabla_ejemplo "[]" "[Date 2025 7 10, Date 2025 7 11]" "Date 2025 7 10" "Date 2025 7 11"]
  have z: "dashboard tabla_ejemplo [] [Date 2025 7 10, Date 2025 7 11] \<noteq> Inl Division_por_cero"
    by blast
  have s: "dashboard tabla_ejemplo [] [Date 2025 7 10, Date 2025 7 11] = Inl Sin_datos"
    using e by (simp add: dashboard_def)
  from dashboard_ok [OF n] obtain k where
    k: "dashboard tabla_ejemplo [''Inversor-A''] [Date 2025 7 10, Date 2025 7 11] = Inr k"
    by blast
  note h = hsp_nunca_divide_por_cero
    [of tabla_ejemplo "[''Inversor-A'']" "[Date 2025 7 10, Date 2025 7 11]"
        "Date 2025 7 10" "Date 2025 7 11"]
  from h n have r: "(\<exists>r \<in> set tabla_ejemplo. Nombre_Inversor r \<in> set [''Inversor-A'']) \<and>
      (50::nat) \<le> 50 * length [''Inversor-A'']"
    by blast
  from h k have f: "\<exists>a b. [Date 2025 7 10, Date 2025 7 11] = [a, b] \<and>
      df_filtrado tabla_ejemplo [''Inversor-A''] a b \<noteq> []"
    by blast
  from z s n r k f show ?thesis by blast
qed

end
